theory Spec2Isabelle
  imports Main
begin

section \<open>Data model of the classroom service\<close>

text \<open>
  The service of \<^verbatim>\<open>routes/api/classrooms.js\<close> keeps two collections of documents,
  classrooms and users. An identity is the string form of a document id: the handlers compare
  \<^verbatim>\<open>req.user.id\<close> (a string) with stored ids by \<^verbatim>\<open>==\<close>, which compares the
  string forms.
\<close>

type_synonym uid = string

text \<open>
  Modelled from the spec: the Classroom schema (\<^verbatim>\<open>models/Classroom\<close>) has the paths
  code, title, subject, subCode, cover, author and joinedUsers (section 3 of the specification).
  The metadata fields come from a request body and may be absent.
\<close>

record classroom =
  code :: string
  title :: "string option"
  subject :: "string option"
  subCode :: "string option"
  cover :: "string option"
  author :: uid
  joinedUsers :: "uid list"

text \<open>
  Modelled from the spec: the User schema (\<^verbatim>\<open>models/User\<close>) is an identity with profile
  fields and a credential field, the password.
\<close>

record user =
  user_id :: uid
  name :: string
  email :: string
  password :: "string option"

text \<open>The values the handlers look at: what a property read or a query gives back.\<close>

datatype jsval =
    JUndefined
  | JNull
  | JStr string
  | JId uid
  | JArr "uid list"
  | JDoc classroom
  | JDocs "classroom list"
  | JUsers "user list"

text \<open>JavaScript truthiness: undefined, null and the empty string are falsy; every object
  (an id, a document, an array, also the empty array) is truthy.\<close>

fun truthy :: "jsval \<Rightarrow> bool" where
  "truthy JUndefined = False"
| "truthy JNull = False"
| "truthy (JStr s) = (s \<noteq> [])"
| "truthy (JId _) = True"
| "truthy (JArr _) = True"
| "truthy (JDoc _) = True"
| "truthy (JDocs _) = True"
| "truthy (JUsers _) = True"

datatype exn = TypeError | ReferenceError | CastError

text \<open>A response: the status code and the body (\<^verbatim>\<open>res.status(n).json(..)\<close>,
  \<^verbatim>\<open>res.json(..)\<close> with status 200, \<^verbatim>\<open>res.status(n).send(text)\<close>).\<close>

text \<open>The places of a request where a validator looks for a field.\<close>

datatype location = Body | Cookies | Headers | Params | Query

datatype body =
    Msg string
  | Errors "(location \<times> string \<times> string) list"
  | Json jsval
  | Text string

datatype response = Resp nat body

type_synonym request_body = "string \<rightharpoonup> string"

text \<open>A request as the edit handler sees it: the fields of its body, cookies, headers and
  query string, each a string when present. The route parameters are those of the path.\<close>

record request =
  req_body :: request_body
  req_cookies :: request_body
  req_headers :: request_body
  req_query :: request_body

section \<open>The document store\<close>

text \<open>
  A collection is the list of its documents in natural order; the position of a document
  stands for its \<^verbatim>\<open>_id\<close>. \<^verbatim>\<open>findOne\<close> gives the first document that matches the
  filter, with its position, or nothing (\<^verbatim>\<open>null\<close>).
\<close>

fun findOne :: "(classroom \<Rightarrow> bool) \<Rightarrow> classroom list \<Rightarrow> (nat \<times> classroom) option" where
  "findOne q [] = None"
| "findOne q (c # cs) =
     (if q c then Some (0, c)
      else map_option (\<lambda>(i, d). (Suc i, d)) (findOne q cs))"

text \<open>The two filters of the handlers: \<^verbatim>\<open>{ code }\<close> and
  \<^verbatim>\<open>{ code, joinedUsers: id }\<close>; an array path matches a scalar when the array contains it.\<close>

definition by_code :: "string \<Rightarrow> classroom \<Rightarrow> bool" where
  "by_code p c = (code c = p)"

definition by_code_member :: "string \<Rightarrow> uid \<Rightarrow> classroom \<Rightarrow> bool" where
  "by_code_member p u c = (code c = p \<and> u \<in> set (joinedUsers c))"

definition by_member :: "uid \<Rightarrow> classroom \<Rightarrow> bool" where
  "by_member u c = (u \<in> set (joinedUsers c))"

text \<open>\<^verbatim>\<open>Classroom.find(filter)\<close>: every matching document, as an array.\<close>

definition Classroom_find :: "(classroom \<Rightarrow> bool) \<Rightarrow> classroom list \<Rightarrow> classroom list" where
  "Classroom_find q db = filter q db"

text \<open>\<^verbatim>\<open>findOneAndUpdate(filter, update, { new: true })\<close>: the first matching document is
  replaced by its update and the updated document is returned; with no match nothing changes
  and the result is \<^verbatim>\<open>null\<close>.\<close>

definition findOneAndUpdate ::
  "(classroom \<Rightarrow> bool) \<Rightarrow> (classroom \<Rightarrow> classroom) \<Rightarrow> classroom list \<Rightarrow> classroom list \<times> jsval" where
  "findOneAndUpdate q upd db =
     (case findOne q db of
        None \<Rightarrow> (db, JNull)
      | Some (i, c) \<Rightarrow> (db[i := upd c], JDoc (upd c)))"

text \<open>\<^verbatim>\<open>document.remove()\<close>: the document at that position leaves the collection.\<close>

definition remove_doc :: "nat \<Rightarrow> classroom list \<Rightarrow> classroom list" where
  "remove_doc i db = take i db @ drop (Suc i) db"

text \<open>The update operators. \<^verbatim>\<open>$push\<close> appends to the array.
  \<^verbatim>\<open>$pull: { joinedUsers: { $in: id } }\<close> removes every element equal to the id (the
  store's query casting wraps the single id into a one-element array).\<close>

definition push_joinedUsers :: "uid \<Rightarrow> classroom \<Rightarrow> classroom" where
  "push_joinedUsers u c = c\<lparr>joinedUsers := joinedUsers c @ [u]\<rparr>"

definition pull_joinedUsers :: "uid \<Rightarrow> classroom \<Rightarrow> classroom" where
  "pull_joinedUsers u c = c\<lparr>joinedUsers := removeAll u (joinedUsers c)\<rparr>"

text \<open>\<^verbatim>\<open>$set\<close> of one path: a path of the schema is overwritten, a path that the schema
  does not have is dropped from the update (the schema is strict). The handlers only set
  metadata paths. A key whose value is \<^verbatim>\<open>undefined\<close> is either left out of the update or
  written as \<^verbatim>\<open>null\<close>, depending on the version and the options of the store's client:
  \<open>omit_undefined\<close> is that choice, a parameter. In the record an absent and a
  \<^verbatim>\<open>null\<close> field are both \<open>None\<close>.\<close>

definition set_path :: "string \<Rightarrow> string option \<Rightarrow> classroom \<Rightarrow> classroom" where
  "set_path p v c =
     (if p = ''title'' then c\<lparr>title := v\<rparr>
      else if p = ''subject'' then c\<lparr>subject := v\<rparr>
      else if p = ''subCode'' then c\<lparr>subCode := v\<rparr>
      else if p = ''cover'' then c\<lparr>cover := v\<rparr>
      else c)"

fun set_paths :: "(string \<times> string option) list \<Rightarrow> classroom \<Rightarrow> classroom" where
  "set_paths [] c = c"
| "set_paths ((p, v) # ps) c = set_paths ps (set_path p v c)"

definition update_fields ::
  "bool \<Rightarrow> (string \<times> string option) list \<Rightarrow> (string \<times> string option) list" where
  "update_fields omit_undefined kvs =
     (if omit_undefined then filter (\<lambda>(n, v). v \<noteq> None) kvs else kvs)"

text \<open>Reading a property of a classroom document: the paths of the schema give their value,
  any other name gives \<^verbatim>\<open>undefined\<close>.\<close>

definition opt_str :: "string option \<Rightarrow> jsval" where
  "opt_str v = (case v of None \<Rightarrow> JUndefined | Some s \<Rightarrow> JStr s)"

definition doc_get :: "classroom \<Rightarrow> string \<Rightarrow> jsval" where
  "doc_get c p =
     (if p = ''code'' then JStr (code c)
      else if p = ''title'' then opt_str (title c)
      else if p = ''subject'' then opt_str (subject c)
      else if p = ''subCode'' then opt_str (subCode c)
      else if p = ''cover'' then opt_str (cover c)
      else if p = ''author'' then JId (author c)
      else if p = ''joinedUsers'' then JArr (joinedUsers c)
      else JUndefined)"

text \<open>\<^verbatim>\<open>value.find(pred)\<close>: on an array the first element that satisfies the predicate
  or \<^verbatim>\<open>undefined\<close>; reading \<^verbatim>\<open>find\<close> of \<^verbatim>\<open>undefined\<close> or \<^verbatim>\<open>null\<close> throws
  a TypeError, and so does calling it on a value that has no such method.\<close>

definition array_find :: "(uid \<Rightarrow> bool) \<Rightarrow> jsval \<Rightarrow> exn + jsval" where
  "array_find pred v =
     (case v of
        JArr xs \<Rightarrow> Inr (case find pred xs of None \<Rightarrow> JUndefined | Some x \<Rightarrow> JId x)
      | _ \<Rightarrow> Inl TypeError)"

text \<open>The user collection. \<^verbatim>\<open>select('-password')\<close> drops the credential field.\<close>

definition select_no_password :: "user \<Rightarrow> user" where
  "select_no_password u = u\<lparr>password := None\<rparr>"

definition User_findById :: "user list \<Rightarrow> uid \<Rightarrow> user option" where
  "User_findById udb i = map_option select_no_password (find (\<lambda>u. user_id u = i) udb)"

text \<open>\<^verbatim>\<open>User.find({ _id: { $in: v } }).select('-password')\<close>: for an array of ids the
  users with one of these ids. What the store does when \<open>v\<close> is no array is left open: it is
  the parameter \<open>other\<close>, an exception or some result.\<close>

definition User_find_in :: "user list \<Rightarrow> (exn + user list) \<Rightarrow> jsval \<Rightarrow> exn + user list" where
  "User_find_in udb other v =
     (case v of
        JArr ids \<Rightarrow> Inr (map select_no_password (filter (\<lambda>u. user_id u \<in> set ids) udb))
      | _ \<Rightarrow> other)"

text \<open>\<^verbatim>\<open>document.save()\<close>: the store takes the document when its schema validation and
  its indexes accept it; \<open>accepts\<close> is that check, a parameter since the schema is not part
  of the handlers. The create handler does not wait for the outcome.\<close>

definition save :: "(classroom list \<Rightarrow> classroom \<Rightarrow> bool) \<Rightarrow> classroom list \<Rightarrow> classroom \<Rightarrow> classroom list" where
  "save accepts db c = (if accepts db c then db @ [c] else db)"

text \<open>Resolving an identifier in the scope of a handler: an identifier that is bound
  nowhere throws a ReferenceError.\<close>

definition resolve :: "(string \<rightharpoonup> jsval) \<Rightarrow> string \<Rightarrow> exn + jsval" where
  "resolve scope x = (case scope x of None \<Rightarrow> Inl ReferenceError | Some v \<Rightarrow> Inr v)"

section \<open>Join codes\<close>

text \<open>
  The create handler takes the join code from \<^verbatim>\<open>randomatic('aA0', 6)\<close>, a library
  function that is absent from the sources. The character classes of its pattern: the letter
  \<^verbatim>\<open>a\<close> selects the lower case letters, \<^verbatim>\<open>A\<close> the upper case letters and \<^verbatim>\<open>0\<close>
  the digits; the mask is the concatenation of the selected classes.
\<close>

definition type_lower :: string where
  "type_lower = ''abcdefghijklmnopqrstuvwxyz''"

definition type_upper :: string where
  "type_upper = ''ABCDEFGHIJKLMNOPQRSTUVWXYZ''"

definition type_number :: string where
  "type_number = ''0123456789''"

definition mask_of :: "string \<Rightarrow> string" where
  "mask_of pattern =
     (if CHR ''a'' \<in> set pattern then type_lower else []) @
     (if CHR ''A'' \<in> set pattern then type_upper else []) @
     (if CHR ''0'' \<in> set pattern then type_number else [])"

definition charAt :: "string \<Rightarrow> nat \<Rightarrow> string" where
  "charAt s i = (if i < length s then [s ! i] else [])"

text \<open>Modelled from the spec: \<^verbatim>\<open>randomatic(pattern, length)\<close>, the missing library
  function. The specification says that the create operation generates a 6-character code
  over upper and lower case letters and digits: each of the \<open>length\<close> characters is picked
  from the mask at a random position; \<open>rnd k\<close> is the \<open>k\<close>-th draw of the random source,
  reduced to a position of the mask.\<close>

definition randomatic :: "string \<Rightarrow> nat \<Rightarrow> (nat \<Rightarrow> nat) \<Rightarrow> string" where
  "randomatic pattern len rnd =
     concat (map (\<lambda>k. charAt (mask_of pattern) (rnd k mod length (mask_of pattern))) [0..<len])"

text \<open>The character set of the specification: \<open>a-z\<close>, \<open>A-Z\<close>, \<open>0-9\<close>, by character code.\<close>

definition alphanumeric :: "char \<Rightarrow> bool" where
  "alphanumeric ch =
     (let n = (of_char ch :: nat)
      in (97 \<le> n \<and> n \<le> 122) \<or> (65 \<le> n \<and> n \<le> 90) \<or> (48 \<le> n \<and> n \<le> 57))"

section \<open>The request handlers\<close>

text \<open>
  Every handler runs behind the \<^verbatim>\<open>auth\<close> middleware, which supplies the caller's id
  (\<^verbatim>\<open>req.user.id\<close>); \<open>p\<close> is \<^verbatim>\<open>req.params.code\<close>. A handler that writes returns the
  new collection with its response. An exception inside \<^verbatim>\<open>try\<close> ends in the handler's
  \<^verbatim>\<open>catch\<close>, which answers 500. The store itself is taken to answer every query, and
  the caller's id, which the middleware takes from a token, to be an id as the store writes
  it.
\<close>

text \<open>\<^verbatim>\<open>router.get('/')\<close>: the classrooms of the caller.\<close>

definition get_classrooms :: "classroom list \<Rightarrow> uid \<Rightarrow> response" where
  "get_classrooms db caller =
     (let classrooms = JDocs (Classroom_find (by_member caller) db)
      in if \<not> truthy classrooms
         then Resp 400 (Msg ''There is no classes for this user'')
         else Resp 200 (Json classrooms))"

text \<open>\<^verbatim>\<open>router.post('/')\<close>: create a classroom. When no user has the caller's id,
  \<^verbatim>\<open>author\<close> is \<^verbatim>\<open>null\<close> and \<^verbatim>\<open>author._id\<close> throws.\<close>

definition create_classroom ::
  "(classroom list \<Rightarrow> classroom \<Rightarrow> bool) \<Rightarrow> (nat \<Rightarrow> nat) \<Rightarrow> classroom list \<Rightarrow> user list \<Rightarrow> uid \<Rightarrow>
     request_body \<Rightarrow> classroom list \<times> response" where
  "create_classroom accepts rnd db udb caller reqbody =
     (case User_findById udb caller of
        None \<Rightarrow> (db, Resp 500 (Text ''Server Error''))
      | Some author_doc \<Rightarrow>
          (let joined = [user_id author_doc];
               new_code = randomatic ''aA0'' 6 rnd;
               newClassroom = \<lparr>code = new_code,
                               title = reqbody ''title'',
                               subject = reqbody ''subject'',
                               subCode = reqbody ''subCode'',
                               cover = reqbody ''cover'',
                               author = user_id author_doc,
                               joinedUsers = joined\<rparr>
           in (save accepts db newClassroom, Resp 200 (Json (JDoc newClassroom)))))"

text \<open>\<^verbatim>\<open>router.get('/:code')\<close>: one classroom, looked up by code and membership.\<close>

definition get_classroom :: "classroom list \<Rightarrow> uid \<Rightarrow> string \<Rightarrow> response" where
  "get_classroom db caller p =
     (case findOne (by_code_member p caller) db of
        None \<Rightarrow> Resp 400 (Msg ''Class does not exist.'')
      | Some (i, classroom) \<Rightarrow> Resp 200 (Json (JDoc classroom)))"

text \<open>\<^verbatim>\<open>router.post('/:code')\<close>: join by code. The membership test reads
  \<^verbatim>\<open>classroom.users\<close>.\<close>

definition join_classroom :: "classroom list \<Rightarrow> uid \<Rightarrow> string \<Rightarrow> classroom list \<times> response" where
  "join_classroom db caller p =
     (case findOne (by_code p) db of
        None \<Rightarrow> (db, Resp 400 (Msg ''Class does not exist.''))
      | Some (i, classroom) \<Rightarrow>
          (case array_find (\<lambda>u. caller = u) (doc_get classroom ''users'') of
             Inl e \<Rightarrow> (db, Resp 500 (Text ''Server Error''))
           | Inr found \<Rightarrow>
               if truthy found then (db, Resp 400 (Msg ''Class already exist.''))
               else (case findOneAndUpdate (by_code p) (push_joinedUsers caller) db of
                       (db', joined) \<Rightarrow> (db', Resp 200 (Json joined)))))"

text \<open>\<^verbatim>\<open>router.patch('/:code')\<close>: edit the metadata. The validators
  \<^verbatim>\<open>check(field, message).notEmpty()\<close> run first, for the fields \<^verbatim>\<open>title\<close>,
  \<^verbatim>\<open>subject\<close> and \<^verbatim>\<open>subcode\<close>. \<^verbatim>\<open>check\<close> looks for a field in the body, the
  cookies, the headers, the route parameters and the query of the request: every place that
  has the field must pass, and when no place has it the body's (undefined) instance is
  validated, and fails. An undefined value counts as the empty string. An error names the
  place, the field and the message. The route parameters of this route are the code.\<close>

definition req_params :: "string \<Rightarrow> request_body" where
  "req_params p = [''code'' \<mapsto> p]"

definition field_instances :: "request \<Rightarrow> string \<Rightarrow> string \<Rightarrow> (location \<times> string option) list" where
  "field_instances req p field =
     (let instances = [(Body, req_body req field), (Cookies, req_cookies req field),
                       (Headers, req_headers req field), (Params, req_params p field),
                       (Query, req_query req field)];
          withValue = filter (\<lambda>(l, v). v \<noteq> None) instances
      in if withValue \<noteq> [] then withValue else [(Body, req_body req field)])"

definition notEmpty :: "string option \<Rightarrow> bool" where
  "notEmpty v = (case v of None \<Rightarrow> False | Some s \<Rightarrow> s \<noteq> [])"

definition check_field ::
  "request \<Rightarrow> string \<Rightarrow> string \<Rightarrow> string \<Rightarrow> (location \<times> string \<times> string) list" where
  "check_field req p field message =
     map (\<lambda>(l, v). (l, field, message))
       (filter (\<lambda>(l, v). \<not> notEmpty v) (field_instances req p field))"

definition validationResult :: "request \<Rightarrow> string \<Rightarrow> (location \<times> string \<times> string) list" where
  "validationResult req p =
     check_field req p ''title'' ''title is required'' @
     check_field req p ''subject'' ''Subject is required'' @
     check_field req p ''subcode'' ''Subcode is required''"

text \<open>After the validation the handler takes \<^verbatim>\<open>title\<close>, \<^verbatim>\<open>subject\<close> and
  \<^verbatim>\<open>subcode\<close> from the body and sets the paths \<^verbatim>\<open>title\<close>, \<^verbatim>\<open>subcode\<close> and
  \<^verbatim>\<open>subject\<close> to them.\<close>

definition edit_classroom ::
  "bool \<Rightarrow> classroom list \<Rightarrow> uid \<Rightarrow> string \<Rightarrow> request \<Rightarrow> classroom list \<times> response" where
  "edit_classroom omit_undefined db caller p req =
     (let errors = validationResult req p
      in if errors \<noteq> [] then (db, Resp 400 (Errors errors))
         else (case findOne (by_code_member p caller) db of
                 None \<Rightarrow> (db, Resp 400 (Msg ''Class does not exist.''))
               | Some (i, classroom) \<Rightarrow>
                   if author classroom \<noteq> caller
                   then (db, Resp 400 (Msg ''User not authorized.''))
                   else (case findOneAndUpdate (by_code p)
                                (set_paths (update_fields omit_undefined
                                   [(''title'', req_body req ''title''),
                                    (''subcode'', req_body req ''subcode''),
                                    (''subject'', req_body req ''subject'')])) db of
                           (db', editedClass) \<Rightarrow> (db', Resp 200 (Json editedClass)))))"

text \<open>\<^verbatim>\<open>router.delete('/:code')\<close>: the author deletes the classroom, another member
  leaves it.\<close>

definition delete_classroom :: "classroom list \<Rightarrow> uid \<Rightarrow> string \<Rightarrow> classroom list \<times> response" where
  "delete_classroom db caller p =
     (case findOne (by_code_member p caller) db of
        None \<Rightarrow> (db, Resp 400 (Msg ''Class does not exist.''))
      | Some (i, classroom) \<Rightarrow>
          if author classroom = caller
          then (remove_doc i db, Resp 200 (Msg ''Class deleted successfully.''))
          else (fst (findOneAndUpdate (by_code p) (pull_joinedUsers caller) db),
                Resp 200 (Msg ''Class leaved successfully.'')))"


text \<open>\<^verbatim>\<open>router.get('/:code/users')\<close>: the members of a classroom. The query reads
  \<^verbatim>\<open>classroom.users\<close>, its result is assigned to the identifier
  \<^verbatim>\<open>constjoinedUsers\<close>, and the response reads the identifier \<^verbatim>\<open>users\<close>.\<close>

definition list_members ::
  "classroom list \<Rightarrow> user list \<Rightarrow> (exn + user list) \<Rightarrow> uid \<Rightarrow> string \<Rightarrow> response" where
  "list_members db udb other caller p =
     (case findOne (by_code_member p caller) db of
        None \<Rightarrow> Resp 400 (Msg ''Class does not exist.'')
      | Some (i, classroom) \<Rightarrow>
          (case User_find_in udb other (doc_get classroom ''users'') of
             Inl e \<Rightarrow> Resp 500 (Msg ''Server error'')
           | Inr found \<Rightarrow>
               (case resolve [''classroom'' \<mapsto> JDoc classroom,
                              ''constjoinedUsers'' \<mapsto> JUsers found] ''users'' of
                  Inl e \<Rightarrow> Resp 500 (Msg ''Server error'')
                | Inr v \<Rightarrow> Resp 200 (Json v))))"

text \<open>The invariants of the data model: join codes are unique, and the author of a
  classroom is among its members. No handler checks a new code against the collection, so
  the first is a property of a collection that the handlers do not establish;
  \<open>code_count db p\<close> is the number of classrooms of the collection that carry the code
  \<open>p\<close>.\<close>

definition unique_codes :: "classroom list \<Rightarrow> bool" where
  "unique_codes db = distinct (map code db)"

definition code_count :: "classroom list \<Rightarrow> string \<Rightarrow> nat" where
  "code_count db p = length (filter (by_code p) db)"


text \<open>Classrooms, users and requests for the examples. The classroom \<open>twin\<close> carries
  the code of \<open>algebra\<close>. \<open>cast_hex24\<close> is the cast of a store whose ids are written
  as 24 hexadecimal digits, and \<open>physics\<close> a classroom with such ids.\<close>

definition algebra :: classroom where
  "algebra = \<lparr>code = ''abc123'', title = Some ''Algebra'', subject = Some ''Math'',
              subCode = Some ''M101'', cover = None, author = ''u1'',
              joinedUsers = [''u1'', ''u2'']\<rparr>"

definition carol :: user where
  "carol = \<lparr>user_id = ''u1'', name = ''Carol'', email = ''carol@example.org'',
            password = Some ''secret''\<rparr>"

definition dave :: user where
  "dave = \<lparr>user_id = ''u2'', name = ''Dave'', email = ''dave@example.org'',
           password = Some ''hunter2''\<rparr>"

definition twin :: classroom where
  "twin = \<lparr>code = ''abc123'', title = Some ''Geometry'', subject = Some ''Math'',
           subCode = Some ''M201'', cover = None, author = ''u2'',
           joinedUsers = [''u2'', ''u3'', ''u4'']\<rparr>"



definition body_only :: "request_body \<Rightarrow> request" where
  "body_only b = \<lparr>req_body = b, req_cookies = Map.empty, req_headers = Map.empty,
                  req_query = Map.empty\<rparr>"

section \<open>Facts about the store\<close>

lemma findOne_None_iff: "findOne q db = None \<longleftrightarrow> (\<forall>c\<in>set db. \<not> q c)"
  by (induction db) auto

lemma findOne_SomeD:
  "findOne q db = Some (i, c) \<Longrightarrow> i < length db \<and> db ! i = c \<and> q c"
proof (induction db arbitrary: i)
  case Nil
  then show ?case by simp
next
  case (Cons x xs)
  show ?case
  proof (cases "q x")
    case True
    with Cons.prems show ?thesis by simp
  next
    case False
    with Cons.prems obtain j where j: "findOne q xs = Some (j, c)" and i: "i = Suc j"
      by (auto split: prod.splits)
    from Cons.IH [OF j] i show ?thesis by simp
  qed
qed

lemma findOne_in_set: "findOne q db = Some (i, c) \<Longrightarrow> c \<in> set db"
  using findOne_SomeD [of q db i c] nth_mem by blast

lemma findOne_at:
  "i < length db \<Longrightarrow> (\<forall>d\<in>set (take i db). \<not> q d) \<Longrightarrow> q (db ! i) \<Longrightarrow>
     findOne q db = Some (i, db ! i)"
proof (induction db arbitrary: i)
  case Nil
  then show ?case by simp
next
  case (Cons x xs)
  show ?case
  proof (cases i)
    case 0
    with Cons.prems show ?thesis by simp
  next
    case (Suc j)
    with Cons.prems have "j < length xs" "\<forall>d\<in>set (take j xs). \<not> q d" "q (xs ! j)" "\<not> q x"
      by simp_all
    with Cons.IH [of j] Suc show ?thesis by simp
  qed
qed

lemma findOne_first: "findOne q db = Some (i, c) \<Longrightarrow> j < i \<Longrightarrow> \<not> q (db ! j)"
proof (induction db arbitrary: i j)
  case Nil
  then show ?case by simp
next
  case (Cons x xs)
  show ?case
  proof (cases "q x")
    case True
    with Cons.prems show ?thesis by simp
  next
    case False
    with Cons.prems obtain k where k: "findOne q xs = Some (k, c)" and i: "i = Suc k"
      by (auto split: prod.splits)
    show ?thesis
    proof (cases j)
      case 0
      with False show ?thesis by simp
    next
      case (Suc l)
      with Cons.prems(2) i have "l < k" by simp
      from Cons.IH [OF k this] Suc show ?thesis by simp
    qed
  qed
qed

lemma sole_code_split:
  assumes "c \<in> set db" and "code_count db (code c) = 1"
  shows "\<exists>i. i < length db \<and> db ! i = c
            \<and> (\<forall>d\<in>set (take i db). code d \<noteq> code c)
            \<and> (\<forall>d\<in>set (drop (Suc i) db). code d \<noteq> code c)"
proof -
  from assms(1) obtain i where i: "i < length db" "db ! i = c"
    by (auto simp: in_set_conv_nth)
  then have "db = take i db @ c # drop (Suc i) db"
    using id_take_nth_drop by blast
  then have "code_count db (code c)
      = code_count (take i db @ c # drop (Suc i) db) (code c)" by simp
  also have "\<dots> = length (filter (by_code (code c)) (take i db)) + 1
      + length (filter (by_code (code c)) (drop (Suc i) db))"
    by (simp add: code_count_def by_code_def)
  finally have "filter (by_code (code c)) (take i db) = []"
    and "filter (by_code (code c)) (drop (Suc i) db) = []"
    using assms(2) by simp_all
  then have "\<forall>d\<in>set (take i db). code d \<noteq> code c"
    and "\<forall>d\<in>set (drop (Suc i) db). code d \<noteq> code c"
    by (simp_all add: filter_empty_conv by_code_def)
  with i show ?thesis by blast
qed

lemma unique_codes_count:
  assumes "unique_codes db" and "c \<in> set db"
  shows "code_count db (code c) = 1"
proof -
  from assms(1) have d: "distinct db" and inj: "inj_on code (set db)"
    by (simp_all add: unique_codes_def distinct_map)
  have "{d. by_code (code c) d} \<inter> set db = {c}"
    using assms(2) inj by (auto simp: by_code_def dest: inj_onD)
  with distinct_length_filter [OF d, of "by_code (code c)"]
  show ?thesis by (simp add: code_count_def)
qed

lemma sole_code_found:
  assumes "c \<in> set db" and "code_count db (code c) = 1"
  shows "\<exists>i. i < length db \<and> db ! i = c
            \<and> (\<forall>d\<in>set (take i db). code d \<noteq> code c)
            \<and> findOne (by_code (code c)) db = Some (i, c)
            \<and> (\<forall>u. u \<in> set (joinedUsers c) \<longrightarrow>
                   findOne (by_code_member (code c) u) db = Some (i, c))
            \<and> code c \<notin> code ` set (remove_doc i db)
            \<and> set (remove_doc i db) = set db - {c}"
proof -
  from sole_code_split [OF assms] obtain i where i: "i < length db" "db ! i = c"
    and before: "\<forall>d\<in>set (take i db). code d \<noteq> code c"
    and after: "\<forall>d\<in>set (drop (Suc i) db). code d \<noteq> code c"
    by blast
  have f: "findOne (by_code (code c)) db = Some (i, c)"
    using findOne_at [of i db "by_code (code c)"] i before by (simp add: by_code_def)
  have g: "findOne (by_code_member (code c) u) db = Some (i, c)" if "u \<in> set (joinedUsers c)" for u
    using findOne_at [of i db "by_code_member (code c) u"] i before that
    by (simp add: by_code_member_def)
  have r: "set (remove_doc i db) = set (take i db) \<union> set (drop (Suc i) db)"
    by (simp add: remove_doc_def)
  with before after have nc: "code c \<notin> code ` set (remove_doc i db)" by auto
  have "set db = set (take i db @ c # drop (Suc i) db)"
    using id_take_nth_drop [OF i(1)] i(2) by simp
  then have "set db = set (take i db) \<union> {c} \<union> set (drop (Suc i) db)" by simp
  with r nc have s: "set (remove_doc i db) = set db - {c}" by auto
  from i before f g nc s show ?thesis by blast
qed

lemma update_sole_found:
  assumes "i < length db" and "\<forall>d\<in>set (take i db). code d \<noteq> p" and "code c' = p"
    and "u \<in> set (joinedUsers c')"
  shows "findOne (by_code_member p u) (db[i := c']) = Some (i, c')"
  using findOne_at [of i "db[i := c']" "by_code_member p u"] assms
  by (simp add: by_code_member_def)

section \<open>Listing and lookup\<close>

text \<open>
  Claim C7. For a caller who is a member of no classroom, listing the caller's classrooms
  answers with status 200 and the empty list. The query result is an array, which is truthy
  also when empty, so the handler never answers with the "no classes" error: it always
  answers 200 with the classrooms the caller has joined.
\<close>

theorem get_classrooms_empty_is_success:
  "get_classrooms db caller = Resp 200 (Json (JDocs (filter (by_member caller) db)))
   \<and> (\<not> (\<exists>c\<in>set db. caller \<in> set (joinedUsers c)) \<longrightarrow>
        get_classrooms db caller = Resp 200 (Json (JDocs [])))
   \<and> get_classrooms db caller \<noteq> Resp 400 (Msg ''There is no classes for this user'')"
proof -
  have run: "get_classrooms db caller = Resp 200 (Json (JDocs (filter (by_member caller) db)))"
    by (simp add: get_classrooms_def Classroom_find_def)
  have "filter (by_member caller) db = []"
    if "\<not> (\<exists>c\<in>set db. caller \<in> set (joinedUsers c))"
    using that by (simp add: filter_empty_conv by_member_def)
  with run show ?thesis by simp
qed

theorem get_classrooms_empty_is_success_witness:
  "\<not> (\<exists>c\<in>set [algebra]. ''u3'' \<in> set (joinedUsers c))
   \<and> get_classrooms [algebra] ''u3'' = Resp 200 (Json (JDocs []))"
  using get_classrooms_empty_is_success [of "[algebra]" "''u3''"]
  by (simp add: algebra_def by_member_def)

text \<open>
  Claim C8. Looking a classroom up by code gives a classroom record exactly when some
  classroom has that code and the caller among its joinedUsers, and the record returned is
  such a classroom; in every other case, whether no classroom has the code or the caller is
  not a member, the answer is the same: status 400 with the message "Class does not exist.".
\<close>

theorem get_classroom_membership_gated:
  "((\<exists>c. get_classroom db caller p = Resp 200 (Json (JDoc c))) \<longleftrightarrow>
      (\<exists>c\<in>set db. code c = p \<and> caller \<in> set (joinedUsers c)))
   \<and> (\<forall>c. get_classroom db caller p = Resp 200 (Json (JDoc c)) \<longrightarrow>
          c \<in> set db \<and> code c = p \<and> caller \<in> set (joinedUsers c))
   \<and> (\<not> (\<exists>c\<in>set db. code c = p \<and> caller \<in> set (joinedUsers c)) \<longrightarrow>
          get_classroom db caller p = Resp 400 (Msg ''Class does not exist.''))"
proof (cases "findOne (by_code_member p caller) db")
  case None
  then have no: "\<not> (\<exists>c\<in>set db. code c = p \<and> caller \<in> set (joinedUsers c))"
    by (simp add: findOne_None_iff by_code_member_def)
  from None have "get_classroom db caller p = Resp 400 (Msg ''Class does not exist.'')"
    by (simp add: get_classroom_def)
  with no show ?thesis by simp
next
  case (Some r)
  obtain i d where r: "r = (i, d)" by (cases r)
  from Some r have f: "findOne (by_code_member p caller) db = Some (i, d)" by simp
  from findOne_SomeD [OF f] findOne_in_set [OF f]
  have d: "d \<in> set db" "code d = p" "caller \<in> set (joinedUsers d)"
    by (simp_all add: by_code_member_def)
  from f have "get_classroom db caller p = Resp 200 (Json (JDoc d))"
    by (simp add: get_classroom_def)
  with d show ?thesis by auto
qed

theorem get_classroom_membership_gated_witness:
  "get_classroom [algebra] ''u2'' ''abc123'' = Resp 200 (Json (JDoc algebra))
   \<and> get_classroom [algebra] ''u3'' ''abc123'' = Resp 400 (Msg ''Class does not exist.'')
   \<and> get_classroom [algebra] ''u2'' ''zzz999'' = Resp 400 (Msg ''Class does not exist.'')"
proof -
  have "\<exists>c\<in>set [algebra]. code c = ''abc123'' \<and> ''u2'' \<in> set (joinedUsers c)"
    by (simp add: algebra_def)
  with get_classroom_membership_gated [of "[algebra]" "''u2''" "''abc123''"]
  obtain c where c: "get_classroom [algebra] ''u2'' ''abc123'' = Resp 200 (Json (JDoc c))"
    by blast
  with get_classroom_membership_gated [of "[algebra]" "''u2''" "''abc123''"]
  have "c \<in> set [algebra]" by blast
  with c have one: "get_classroom [algebra] ''u2'' ''abc123'' = Resp 200 (Json (JDoc algebra))"
    by simp
  have "\<not> (\<exists>c\<in>set [algebra]. code c = ''abc123'' \<and> ''u3'' \<in> set (joinedUsers c))"
    by (simp add: algebra_def)
  with get_classroom_membership_gated [of "[algebra]" "''u3''" "''abc123''"]
  have two: "get_classroom [algebra] ''u3'' ''abc123'' = Resp 400 (Msg ''Class does not exist.'')"
    by blast
  have "\<not> (\<exists>c\<in>set [algebra]. code c = ''zzz999'' \<and> ''u2'' \<in> set (joinedUsers c))"
    by (simp add: algebra_def)
  with get_classroom_membership_gated [of "[algebra]" "''u2''" "''zzz999''"]
  have three: "get_classroom [algebra] ''u2'' ''zzz999'' = Resp 400 (Msg ''Class does not exist.'')"
    by blast
  from one two three show ?thesis by simp
qed

section \<open>Creating a classroom\<close>

lemma User_findById_id: "User_findById udb i = Some a \<Longrightarrow> user_id a = i"
  by (auto simp: User_findById_def select_no_password_def find_Some_iff)

lemma User_findById_known:
  "i \<in> user_id ` set udb \<Longrightarrow> \<exists>a. User_findById udb i = Some a"
proof -
  assume "i \<in> user_id ` set udb"
  then have "find (\<lambda>u. user_id u = i) udb \<noteq> None"
    by (auto simp: find_None_iff)
  then show ?thesis by (auto simp: User_findById_def)
qed

text \<open>
  Claim C6. For a caller known to the user collection and any request body, the create
  operation answers 200 with the created record; the author of that record is the caller
  and its joinedUsers is the one-element list of the caller; the metadata is that of the
  body, and the record is appended to the collection when the store accepts it.
\<close>

theorem create_classroom_author_and_members:
  assumes "caller \<in> user_id ` set udb"
  shows "\<exists>c. create_classroom accepts rnd db udb caller reqbody
                = (save accepts db c, Resp 200 (Json (JDoc c)))
             \<and> author c = caller \<and> joinedUsers c = [caller]
             \<and> title c = reqbody ''title'' \<and> subject c = reqbody ''subject''
             \<and> subCode c = reqbody ''subCode'' \<and> cover c = reqbody ''cover''
             \<and> (accepts db c \<longrightarrow> save accepts db c = db @ [c])"
proof -
  from assms obtain a where a: "User_findById udb caller = Some a"
    using User_findById_known by blast
  then have id: "user_id a = caller" by (rule User_findById_id)
  define c where "c = \<lparr>code = randomatic ''aA0'' 6 rnd, title = reqbody ''title'',
    subject = reqbody ''subject'', subCode = reqbody ''subCode'', cover = reqbody ''cover'',
    author = caller, joinedUsers = [caller]\<rparr>"
  have run: "create_classroom accepts rnd db udb caller reqbody
               = (save accepts db c, Resp 200 (Json (JDoc c)))"
    using a id by (simp add: create_classroom_def Let_def c_def)
  have fields: "author c = caller" "joinedUsers c = [caller]" "title c = reqbody ''title''"
    "subject c = reqbody ''subject''" "subCode c = reqbody ''subCode''"
    "cover c = reqbody ''cover''"
    by (simp_all add: c_def)
  have "accepts db c \<longrightarrow> save accepts db c = db @ [c]" by (simp add: save_def)
  with run fields show ?thesis by blast
qed

theorem create_classroom_author_and_members_witness:
  "''u1'' \<in> user_id ` set [carol, dave]
   \<and> (\<exists>c. create_classroom (\<lambda>db c. True) (\<lambda>k. 7 * k) [] [carol, dave] ''u1''
              [''title'' \<mapsto> ''Algebra'', ''subject'' \<mapsto> ''Math'', ''subCode'' \<mapsto> ''M101'']
            = ([c], Resp 200 (Json (JDoc c)))
          \<and> author c = ''u1'' \<and> joinedUsers c = [''u1''])"
proof -
  have h: "''u1'' \<in> user_id ` set [carol, dave]" by (simp add: carol_def)
  from create_classroom_author_and_members [OF h, of "\<lambda>db c. True" "\<lambda>k. 7 * k" "[]"
      "[''title'' \<mapsto> ''Algebra'', ''subject'' \<mapsto> ''Math'', ''subCode'' \<mapsto> ''M101'']"]
  show ?thesis using h by (auto simp: save_def)
qed

lemma mask_aA0: "mask_of ''aA0'' = type_lower @ type_upper @ type_number"
  by (simp add: mask_of_def)

lemma length_mask_aA0: "length (mask_of ''aA0'') = 62"
  by (simp add: mask_aA0 type_lower_def type_upper_def type_number_def)

lemma alphanumeric_mask_aA0: "\<forall>ch\<in>set (mask_of ''aA0''). alphanumeric ch"
  by (simp add: mask_aA0 type_lower_def type_upper_def type_number_def alphanumeric_def)

lemma length_concat_singletons:
  "(\<forall>x\<in>set xs. length (f x) = 1) \<Longrightarrow> length (concat (map f xs)) = length xs"
  by (induction xs) auto

lemma randomatic_aA0:
  "length (randomatic ''aA0'' n rnd) = n \<and> (\<forall>ch\<in>set (randomatic ''aA0'' n rnd). alphanumeric ch)"
proof -
  let ?m = "mask_of ''aA0''"
  have pos: "rnd k mod length ?m < length ?m" for k
    by (simp add: length_mask_aA0)
  have pick: "charAt ?m (rnd k mod length ?m) = [?m ! (rnd k mod length ?m)]" for k
    using pos [of k] by (simp only: charAt_def if_True)
  have len: "length (randomatic ''aA0'' n rnd) = n"
    unfolding randomatic_def
    using length_concat_singletons [of "[0..<n]" "\<lambda>k. charAt ?m (rnd k mod length ?m)"] pick
    by simp
  have "ch \<in> set ?m" if "ch \<in> set (randomatic ''aA0'' n rnd)" for ch
  proof -
    from that obtain k where "ch \<in> set (charAt ?m (rnd k mod length ?m))"
      unfolding randomatic_def by auto
    with pick [of k] have "ch = ?m ! (rnd k mod length ?m)" by simp
    with pos [of k] show ?thesis using nth_mem by blast
  qed
  with alphanumeric_mask_aA0 len show ?thesis by blast
qed

text \<open>
  Claim C9. The join code of every classroom that the create operation produces has exactly
  6 characters, each of them one of \<open>a-z\<close>, \<open>A-Z\<close>, \<open>0-9\<close>.
\<close>

theorem create_classroom_code_format:
  assumes "create_classroom accepts rnd db udb caller reqbody = (db', Resp 200 (Json (JDoc c)))"
  shows "length (code c) = 6 \<and> (\<forall>ch\<in>set (code c). alphanumeric ch)"
proof -
  from assms have "code c = randomatic ''aA0'' 6 rnd"
    by (auto simp: create_classroom_def Let_def split: option.splits)
  with randomatic_aA0 [of 6 rnd] show ?thesis by simp
qed

theorem create_classroom_code_format_witness:
  "create_classroom (\<lambda>db c. True) (\<lambda>k. 7 * k + 3) [] [carol, dave] ''u1''
       [''title'' \<mapsto> ''Algebra'', ''subject'' \<mapsto> ''Math'', ''subCode'' \<mapsto> ''M101'']
     = ([\<lparr>code = ''dkryFM'', title = Some ''Algebra'', subject = Some ''Math'',
           subCode = Some ''M101'', cover = None, author = ''u1'', joinedUsers = [''u1'']\<rparr>],
        Resp 200 (Json (JDoc \<lparr>code = ''dkryFM'', title = Some ''Algebra'',
           subject = Some ''Math'', subCode = Some ''M101'', cover = None, author = ''u1'',
           joinedUsers = [''u1'']\<rparr>)))
   \<and> length ''dkryFM'' = 6 \<and> list_all alphanumeric ''dkryFM''"
proof -
  have run: "create_classroom (\<lambda>db c. True) (\<lambda>k. 7 * k + 3) [] [carol, dave] ''u1''
       [''title'' \<mapsto> ''Algebra'', ''subject'' \<mapsto> ''Math'', ''subCode'' \<mapsto> ''M101'']
     = ([\<lparr>code = ''dkryFM'', title = Some ''Algebra'', subject = Some ''Math'',
           subCode = Some ''M101'', cover = None, author = ''u1'', joinedUsers = [''u1'']\<rparr>],
        Resp 200 (Json (JDoc \<lparr>code = ''dkryFM'', title = Some ''Algebra'',
           subject = Some ''Math'', subCode = Some ''M101'', cover = None, author = ''u1'',
           joinedUsers = [''u1'']\<rparr>)))"
    by code_simp
  from create_classroom_code_format [OF run] run show ?thesis
    by (simp add: list_all_iff)
qed

section \<open>Joining, listing members and editing\<close>

lemma findOne_Some_if: "c \<in> set db \<Longrightarrow> q c \<Longrightarrow> \<exists>i d. findOne q db = Some (i, d)"
  using findOne_None_iff [of q db] by (cases "findOne q db") auto

lemma doc_get_users: "doc_get c ''users'' = JUndefined"
  by (simp add: doc_get_def)

text \<open>
  Claim C1. The specification has a join request answer with a conflict (status 400) for a
  caller who is already a member, and append the caller to joinedUsers otherwise. The handler
  tests membership on \<^verbatim>\<open>classroom.users\<close>, which is no path of the classroom record, so
  the read gives \<^verbatim>\<open>undefined\<close> and \<^verbatim>\<open>.find\<close> throws: for every code that some
  classroom has and every caller, member or not, the join request ends in the catch branch,
  status 500 with the text "Server Error", and the collection is unchanged.
\<close>

theorem join_classroom_existing_code_fails:
  assumes "c \<in> set db" and "code c = p"
  shows "join_classroom db caller p = (db, Resp 500 (Text ''Server Error''))"
proof -
  from assms obtain i d where "findOne (by_code p) db = Some (i, d)"
    using findOne_Some_if [of c db "by_code p"] by (auto simp: by_code_def)
  then show ?thesis
    by (simp add: join_classroom_def doc_get_users array_find_def)
qed

theorem join_classroom_existing_code_fails_witness:
  "''u2'' \<in> set (joinedUsers algebra) \<and> ''u3'' \<notin> set (joinedUsers algebra)
   \<and> join_classroom [algebra] ''u2'' ''abc123'' = ([algebra], Resp 500 (Text ''Server Error''))
   \<and> join_classroom [algebra] ''u3'' ''abc123'' = ([algebra], Resp 500 (Text ''Server Error''))"
proof -
  have h: "algebra \<in> set [algebra]" "code algebra = ''abc123''"
    by (simp_all add: algebra_def)
  from join_classroom_existing_code_fails [OF h, of "''u2''"]
       join_classroom_existing_code_fails [OF h, of "''u3''"]
  show ?thesis by (simp add: algebra_def)
qed

text \<open>
  Claim C2. The specification has the list-members operation return the identity records of
  the members. The handler stores the query result under the identifier
  \<^verbatim>\<open>constjoinedUsers\<close> and then reads \<^verbatim>\<open>users\<close>, which is bound nowhere: for every
  classroom and every caller who is a member of it, whatever the user query gives, the
  operation ends in the catch branch, status 500 with the message "Server error".
\<close>

theorem list_members_fails_for_members:
  assumes "c \<in> set db" and "code c = p" and "caller \<in> set (joinedUsers c)"
  shows "list_members db udb other caller p = Resp 500 (Msg ''Server error'')"
proof -
  from assms obtain i d where "findOne (by_code_member p caller) db = Some (i, d)"
    using findOne_Some_if [of c db "by_code_member p caller"] by (auto simp: by_code_member_def)
  then show ?thesis
    by (cases other) (simp_all add: list_members_def doc_get_users User_find_in_def resolve_def)
qed

theorem list_members_fails_for_members_witness:
  "''u1'' \<in> set (joinedUsers algebra)
   \<and> list_members [algebra] [carol, dave] (Inr []) ''u1'' ''abc123'' = Resp 500 (Msg ''Server error'')
   \<and> list_members [algebra] [carol, dave] (Inl CastError) ''u1'' ''abc123''
       = Resp 500 (Msg ''Server error'')"
proof -
  have h: "algebra \<in> set [algebra]" "code algebra = ''abc123''" "''u1'' \<in> set (joinedUsers algebra)"
    by (simp_all add: algebra_def)
  from list_members_fails_for_members [OF h, of "[carol, dave]" "Inr []"]
       list_members_fails_for_members [OF h, of "[carol, dave]" "Inl CastError"] h(3)
  show ?thesis by simp
qed

lemma findOneAndUpdate_map:
  assumes "\<And>c. g (upd c) = g c"
  shows "map g (fst (findOneAndUpdate q upd db)) = map g db"
proof (cases "findOne q db")
  case None
  then show ?thesis by (simp add: findOneAndUpdate_def)
next
  case (Some r)
  obtain i c where r: "r = (i, c)" by (cases r)
  from Some r have f: "findOne q db = Some (i, c)" by simp
  from findOne_SomeD [OF f] have i: "i < length db" "db ! i = c" by blast+
  have "map g (db[i := upd c]) = (map g db)[i := g c]"
    by (simp add: map_update assms)
  also have "\<dots> = map g db" using i by (metis list_update_id nth_map)
  finally show ?thesis using f by (simp add: findOneAndUpdate_def)
qed

lemma subCode_set_edit:
  "subCode (set_paths (update_fields omit [(''title'', a), (''subcode'', b), (''subject'', d)]) c)
     = subCode c"
  by (simp add: update_fields_def set_path_def)

lemma set_paths_edit:
  "set_paths (update_fields omit [(''title'', Some t), (''subcode'', b), (''subject'', Some s)]) c
     = c\<lparr>title := Some t, subject := Some s\<rparr>"
  by (simp add: update_fields_def set_path_def)

lemma notEmpty_Some: "notEmpty v \<Longrightarrow> \<exists>s. v = Some s \<and> s \<noteq> []"
  by (auto simp: notEmpty_def split: option.splits)

lemma edit_classroom_invalid:
  "validationResult req p \<noteq> [] \<Longrightarrow>
     edit_classroom omit db caller p req = (db, Resp 400 (Errors (validationResult req p)))"
  by (simp add: edit_classroom_def Let_def)

lemma edit_classroom_subCode:
  "map subCode (fst (edit_classroom omit db caller p req)) = map subCode db"
proof (cases "validationResult req p = []")
  case False
  then show ?thesis by (simp add: edit_classroom_invalid)
next
  case True
  show ?thesis
  proof (cases "findOne (by_code_member p caller) db")
    case None
    with True show ?thesis by (simp add: edit_classroom_def)
  next
    case (Some r)
    obtain i c where r: "r = (i, c)" by (cases r)
    let ?upd = "set_paths (update_fields omit [(''title'', req_body req ''title''),
        (''subcode'', req_body req ''subcode''), (''subject'', req_body req ''subject'')])"
    have "fst (edit_classroom omit db caller p req) = db
        \<or> fst (edit_classroom omit db caller p req) = fst (findOneAndUpdate (by_code p) ?upd db)"
      using True Some r by (simp add: edit_classroom_def split: prod.splits)
    moreover have "map subCode (fst (findOneAndUpdate (by_code p) ?upd db)) = map subCode db"
      by (rule findOneAndUpdate_map) (rule subCode_set_edit)
    ultimately show ?thesis by auto
  qed
qed

lemma subcode_nowhere:
  assumes "req_body req ''subcode'' = None" and "req_cookies req ''subcode'' = None"
    and "req_headers req ''subcode'' = None" and "req_query req ''subcode'' = None"
  shows "check_field req p ''subcode'' ''Subcode is required''
           = [(Body, ''subcode'', ''Subcode is required'')]"
  using assms by (simp add: check_field_def field_instances_def req_params_def notEmpty_def)

lemma edit_classroom_missing_subcode:
  assumes "req_body req ''subcode'' = None" and "req_cookies req ''subcode'' = None"
    and "req_headers req ''subcode'' = None" and "req_query req ''subcode'' = None"
  shows "\<exists>errs. edit_classroom omit db caller p req = (db, Resp 400 (Errors errs))
              \<and> (Body, ''subcode'', ''Subcode is required'') \<in> set errs"
proof -
  from subcode_nowhere [OF assms, of p]
  have "validationResult req p \<noteq> []"
    and "(Body, ''subcode'', ''Subcode is required'') \<in> set (validationResult req p)"
    by (simp_all add: validationResult_def)
  then show ?thesis by (simp add: edit_classroom_invalid)
qed

lemma check_field_body_only:
  "check_field (body_only b) p f m = (if notEmpty (b f) then [] else [(Body, f, m)])"
  if "f \<noteq> ''code''"
  using that
  by (cases "b f") (simp_all add: check_field_def field_instances_def req_params_def
      body_only_def notEmpty_def)

lemma validationResult_body_only:
  "validationResult (body_only b) p = [] \<longleftrightarrow>
     notEmpty (b ''title'') \<and> notEmpty (b ''subject'') \<and> notEmpty (b ''subcode'')"
  by (simp add: validationResult_def check_field_body_only)

lemma edit_classroom_by_author:
  assumes v: "validationResult req p = []"
    and f: "findOne (by_code_member p caller) db = Some (i, c)"
    and g: "findOne (by_code p) db = Some (i, c)"
    and a: "author c = caller"
  shows "edit_classroom omit db caller p req
          = (db[i := set_paths (update_fields omit [(''title'', req_body req ''title''),
                (''subcode'', req_body req ''subcode''), (''subject'', req_body req ''subject'')]) c],
             Resp 200 (Json (JDoc (set_paths (update_fields omit [(''title'', req_body req ''title''),
                (''subcode'', req_body req ''subcode''), (''subject'', req_body req ''subject'')]) c))))"
  using v f g a by (simp add: edit_classroom_def findOneAndUpdate_def)

text \<open>
  Claim C3. The specification has an edit by the author update title, subject and subCode.
  The handler validates and sets the field \<^verbatim>\<open>subcode\<close>, which is not the path
  \<^verbatim>\<open>subCode\<close> of the record. No edit request, of any caller for any code, changes the
  subCode of any record of the collection. For the author of a classroom whose code no other
  classroom carries, a request that passes the validation answers 200 with that record
  updated, its subCode the old one, and its title and subject those of the body when the
  body has them non-empty; a request that carries \<^verbatim>\<open>subcode\<close> in no place (one that
  names the field \<^verbatim>\<open>subCode\<close>, say) is rejected by the validation with "Subcode is
  required", the collection unchanged. A request with fields in the body only passes the
  validation exactly when its \<^verbatim>\<open>title\<close>, \<^verbatim>\<open>subject\<close> and \<^verbatim>\<open>subcode\<close> are
  non-empty.
\<close>

theorem edit_classroom_keeps_subCode:
  assumes "c \<in> set db" and "code_count db (code c) = 1" and "author c = caller"
    and "caller \<in> set (joinedUsers c)"
  shows "map subCode (fst (edit_classroom omit db caller' p' req')) = map subCode db
       \<and> (validationResult req (code c) = [] \<longrightarrow>
           (\<exists>i c'. i < length db \<and> db ! i = c
              \<and> edit_classroom omit db caller (code c) req = (db[i := c'], Resp 200 (Json (JDoc c')))
              \<and> subCode c' = subCode c
              \<and> (notEmpty (req_body req ''title'') \<and> notEmpty (req_body req ''subject'') \<longrightarrow>
                    c' = c\<lparr>title := req_body req ''title'', subject := req_body req ''subject''\<rparr>)))
       \<and> (req_body req ''subcode'' = None \<and> req_cookies req ''subcode'' = None
            \<and> req_headers req ''subcode'' = None \<and> req_query req ''subcode'' = None \<longrightarrow>
           (\<exists>errs. edit_classroom omit db caller (code c) req = (db, Resp 400 (Errors errs))
              \<and> (Body, ''subcode'', ''Subcode is required'') \<in> set errs))
       \<and> (validationResult (body_only b) (code c) = [] \<longleftrightarrow>
            notEmpty (b ''title'') \<and> notEmpty (b ''subject'') \<and> notEmpty (b ''subcode''))"
proof (intro conjI impI)
  show "map subCode (fst (edit_classroom omit db caller' p' req')) = map subCode db"
    by (rule edit_classroom_subCode)
next
  assume v: "validationResult req (code c) = []"
  from sole_code_found [OF assms(1,2)] assms(4)
  obtain i where i: "i < length db" "db ! i = c"
    and g: "findOne (by_code (code c)) db = Some (i, c)"
    and f: "findOne (by_code_member (code c) caller) db = Some (i, c)"
    by (elim exE conjE) blast
  define c' where "c' = set_paths (update_fields omit [(''title'', req_body req ''title''),
      (''subcode'', req_body req ''subcode''), (''subject'', req_body req ''subject'')]) c"
  have run: "edit_classroom omit db caller (code c) req = (db[i := c'], Resp 200 (Json (JDoc c')))"
    using edit_classroom_by_author [OF v f g assms(3)] by (simp add: c'_def)
  have sc: "subCode c' = subCode c" unfolding c'_def by (rule subCode_set_edit)
  have ts: "c' = c\<lparr>title := req_body req ''title'', subject := req_body req ''subject''\<rparr>"
    if "notEmpty (req_body req ''title'') \<and> notEmpty (req_body req ''subject'')"
  proof -
    from that obtain t where t: "req_body req ''title'' = Some t"
      using notEmpty_Some [of "req_body req ''title''"] by blast
    from that obtain s where s: "req_body req ''subject'' = Some s"
      using notEmpty_Some [of "req_body req ''subject''"] by blast
    show ?thesis unfolding c'_def t s by (simp add: set_paths_edit)
  qed
  from i run sc ts
  show "\<exists>i c'. i < length db \<and> db ! i = c
              \<and> edit_classroom omit db caller (code c) req = (db[i := c'], Resp 200 (Json (JDoc c')))
              \<and> subCode c' = subCode c
              \<and> (notEmpty (req_body req ''title'') \<and> notEmpty (req_body req ''subject'') \<longrightarrow>
                    c' = c\<lparr>title := req_body req ''title'', subject := req_body req ''subject''\<rparr>)"
    by (intro exI [of _ i] exI [of _ c']) simp
next
  assume "req_body req ''subcode'' = None \<and> req_cookies req ''subcode'' = None
            \<and> req_headers req ''subcode'' = None \<and> req_query req ''subcode'' = None"
  then show "\<exists>errs. edit_classroom omit db caller (code c) req = (db, Resp 400 (Errors errs))
              \<and> (Body, ''subcode'', ''Subcode is required'') \<in> set errs"
    using edit_classroom_missing_subcode [of req omit db caller "code c"] by simp
next
  show "validationResult (body_only b) (code c) = [] \<longleftrightarrow>
            notEmpty (b ''title'') \<and> notEmpty (b ''subject'') \<and> notEmpty (b ''subcode'')"
    by (rule validationResult_body_only)
qed


theorem edit_classroom_keeps_subCode_witness:
  "edit_classroom False [algebra] ''u1'' ''abc123''
      (body_only [''title'' \<mapsto> ''Algebra II'', ''subject'' \<mapsto> ''Math'', ''subcode'' \<mapsto> ''M102''])
     = ([algebra\<lparr>title := Some ''Algebra II''\<rparr>],
        Resp 200 (Json (JDoc (algebra\<lparr>title := Some ''Algebra II''\<rparr>))))
   \<and> subCode (algebra\<lparr>title := Some ''Algebra II''\<rparr>) = Some ''M101''
   \<and> edit_classroom False [algebra] ''u1'' ''abc123''
      (body_only [''title'' \<mapsto> ''Algebra II'', ''subject'' \<mapsto> ''Math'', ''subCode'' \<mapsto> ''M102''])
     = ([algebra], Resp 400 (Errors [(Body, ''subcode'', ''Subcode is required'')]))
   \<and> edit_classroom False [algebra] ''u1'' ''abc123''
      \<lparr>req_body = [''title'' \<mapsto> ''Algebra II'', ''subject'' \<mapsto> ''Math''],
       req_cookies = Map.empty, req_headers = Map.empty,
       req_query = [''subcode'' \<mapsto> ''M102'']\<rparr>
     = ([algebra\<lparr>title := Some ''Algebra II''\<rparr>],
        Resp 200 (Json (JDoc (algebra\<lparr>title := Some ''Algebra II''\<rparr>))))"
proof -
  let ?b1 = "[''title'' \<mapsto> ''Algebra II'', ''subject'' \<mapsto> ''Math'', ''subcode'' \<mapsto> ''M102'']"
  let ?b2 = "[''title'' \<mapsto> ''Algebra II'', ''subject'' \<mapsto> ''Math'', ''subCode'' \<mapsto> ''M102'']"
  have h: "algebra \<in> set [algebra]" "code_count [algebra] (code algebra) = 1"
    "author algebra = ''u1''" "''u1'' \<in> set (joinedUsers algebra)"
    by (simp_all add: code_count_def by_code_def algebra_def)
  have c: "code algebra = ''abc123''" by (simp add: algebra_def)
  note inst = edit_classroom_keeps_subCode [OF h, of False _ _ _ "body_only ?b1" ?b1]
  have ok: "notEmpty (?b1 ''title'') \<and> notEmpty (?b1 ''subject'') \<and> notEmpty (?b1 ''subcode'')"
    by (simp add: notEmpty_def)
  with inst have v: "validationResult (body_only ?b1) (code algebra) = []" by blast
  have nb: "notEmpty (req_body (body_only ?b1) ''title'')
      \<and> notEmpty (req_body (body_only ?b1) ''subject'')"
    by (simp add: body_only_def notEmpty_def)
  from inst [THEN conjunct2, THEN conjunct1, THEN mp, OF v]
  obtain i c' where i: "i < length [algebra]"
    and e: "edit_classroom False [algebra] ''u1'' (code algebra) (body_only ?b1)
              = ([algebra][i := c'], Resp 200 (Json (JDoc c')))"
    and c': "notEmpty (req_body (body_only ?b1) ''title'')
               \<and> notEmpty (req_body (body_only ?b1) ''subject'') \<longrightarrow>
             c' = algebra\<lparr>title := req_body (body_only ?b1) ''title'',
                           subject := req_body (body_only ?b1) ''subject''\<rparr>"
    by (elim exE conjE) blast
  from c' nb have "c' = algebra\<lparr>title := Some ''Algebra II''\<rparr>"
    by (simp add: body_only_def algebra_def)
  moreover from i have "i = 0" by simp
  ultimately have one: "edit_classroom False [algebra] ''u1'' ''abc123'' (body_only ?b1)
     = ([algebra\<lparr>title := Some ''Algebra II''\<rparr>],
        Resp 200 (Json (JDoc (algebra\<lparr>title := Some ''Algebra II''\<rparr>))))"
    using e c by simp
  have two: "subCode (algebra\<lparr>title := Some ''Algebra II''\<rparr>) = Some ''M101''"
    by (simp add: algebra_def)
  have three: "edit_classroom False [algebra] ''u1'' ''abc123'' (body_only ?b2)
     = ([algebra], Resp 400 (Errors [(Body, ''subcode'', ''Subcode is required'')]))"
    by (simp add: edit_classroom_def validationResult_def check_field_body_only notEmpty_def)
  let ?q = "\<lparr>req_body = [''title'' \<mapsto> ''Algebra II'', ''subject'' \<mapsto> ''Math''],
       req_cookies = Map.empty, req_headers = Map.empty,
       req_query = [''subcode'' \<mapsto> ''M102'']\<rparr>"
  have vq: "validationResult ?q (code algebra) = []"
    by (simp add: validationResult_def check_field_def field_instances_def req_params_def
        notEmpty_def)
  have nq: "notEmpty (req_body ?q ''title'') \<and> notEmpty (req_body ?q ''subject'')"
    by (simp add: notEmpty_def)
  from edit_classroom_keeps_subCode [OF h, of False _ _ _ ?q, THEN conjunct2, THEN conjunct1,
      THEN mp, OF vq]
  obtain j d where j: "j < length [algebra]"
    and eq: "edit_classroom False [algebra] ''u1'' (code algebra) ?q
              = ([algebra][j := d], Resp 200 (Json (JDoc d)))"
    and d: "notEmpty (req_body ?q ''title'') \<and> notEmpty (req_body ?q ''subject'') \<longrightarrow>
             d = algebra\<lparr>title := req_body ?q ''title'', subject := req_body ?q ''subject''\<rparr>"
    by (elim exE conjE) blast
  from d nq have "d = algebra\<lparr>title := Some ''Algebra II''\<rparr>"
    by (simp add: algebra_def)
  moreover from j have "j = 0" by simp
  ultimately have four: "edit_classroom False [algebra] ''u1'' ''abc123'' ?q
     = ([algebra\<lparr>title := Some ''Algebra II''\<rparr>],
        Resp 200 (Json (JDoc (algebra\<lparr>title := Some ''Algebra II''\<rparr>))))"
    using eq c by simp
  from one two three four show ?thesis by blast
qed

lemma edit_classroom_keeps_position:
  assumes k: "k < length db" "db ! k = c"
    and m: "caller \<in> set (joinedUsers c)" and a: "author c \<noteq> caller"
  shows "fst (edit_classroom omit db caller (code c) req) ! k = c"
proof (cases "validationResult req (code c) = []")
  case False
  with k show ?thesis by (simp add: edit_classroom_invalid)
next
  case True
  let ?p = "code c"
  have qk: "by_code_member ?p caller (db ! k)" using k m by (simp add: by_code_member_def)
  show ?thesis
  proof (cases "findOne (by_code_member ?p caller) db")
    case None
    with True k show ?thesis by (simp add: edit_classroom_def)
  next
    case (Some r)
    obtain iF F where r: "r = (iF, F)" by (cases r)
    from Some r have f: "findOne (by_code_member ?p caller) db = Some (iF, F)" by simp
    from findOne_SomeD [OF f] have F: "iF < length db" "db ! iF = F" "by_code_member ?p caller F"
      by blast+
    have le: "iF \<le> k" using findOne_first [OF f, of k] qk by (cases "k < iF") auto
    show ?thesis
    proof (cases "author F = caller")
      case False
      with True f k show ?thesis by (simp add: edit_classroom_def)
    next
      case author: True
      with a F(2) k(2) have "iF \<noteq> k" by auto
      with le have lt: "iF < k" by simp
      show ?thesis
      proof (cases "findOne (by_code ?p) db")
        case None
        with True f author k show ?thesis
          by (simp add: edit_classroom_def findOneAndUpdate_def)
      next
        case (Some r')
        obtain iG G where r': "r' = (iG, G)" by (cases r')
        from Some r' have g: "findOne (by_code ?p) db = Some (iG, G)" by simp
        have "by_code ?p (db ! iF)" using F by (simp add: by_code_member_def by_code_def)
        with findOne_first [OF g, of iF] have "iG \<le> iF" by (cases "iF < iG") auto
        with lt have "iG \<noteq> k" by simp
        with True f author g k show ?thesis
          by (simp add: edit_classroom_def findOneAndUpdate_def)
      qed
    qed
  qed
qed

lemma edit_classroom_length: "length (fst (edit_classroom omit db caller p req)) = length db"
  using edit_classroom_subCode [of omit db caller p req] by (metis length_map)

text \<open>
  Claim C5, as amended. For a classroom and a caller who is a member of it but not its
  author, an edit request leaves that record in its place unchanged, whatever the request.
  When the request fails the validation, the answer is status 400 with the list of
  validation errors and the collection is unchanged, since the validation runs before the
  author check. When the request passes the validation and no other classroom of the
  collection carries the code, the answer is status 400 with the message "User not
  authorized." and the collection is unchanged.
\<close>

theorem edit_classroom_non_author:
  assumes "c \<in> set db" and "caller \<in> set (joinedUsers c)" and "author c \<noteq> caller"
  shows "length (fst (edit_classroom omit db caller (code c) req)) = length db
       \<and> (\<forall>k<length db. db ! k = c \<longrightarrow> fst (edit_classroom omit db caller (code c) req) ! k = c)
       \<and> (validationResult req (code c) \<noteq> [] \<longrightarrow>
            edit_classroom omit db caller (code c) req
              = (db, Resp 400 (Errors (validationResult req (code c)))))
       \<and> (validationResult req (code c) = [] \<and> code_count db (code c) = 1 \<longrightarrow>
            edit_classroom omit db caller (code c) req
              = (db, Resp 400 (Msg ''User not authorized.'')))"
proof (intro conjI impI allI)
  show "length (fst (edit_classroom omit db caller (code c) req)) = length db"
    by (rule edit_classroom_length)
next
  fix k assume "k < length db" and "db ! k = c"
  then show "fst (edit_classroom omit db caller (code c) req) ! k = c"
    using assms(2,3) by (rule edit_classroom_keeps_position)
next
  assume "validationResult req (code c) \<noteq> []"
  then show "edit_classroom omit db caller (code c) req
              = (db, Resp 400 (Errors (validationResult req (code c))))"
    by (rule edit_classroom_invalid)
next
  assume v: "validationResult req (code c) = [] \<and> code_count db (code c) = 1"
  with sole_code_found [OF assms(1)] assms(2)
  obtain i where "findOne (by_code_member (code c) caller) db = Some (i, c)"
    by (elim exE conjE) blast
  with v assms(3) show "edit_classroom omit db caller (code c) req
              = (db, Resp 400 (Msg ''User not authorized.''))"
    by (simp add: edit_classroom_def)
qed

theorem edit_classroom_non_author_witness:
  "edit_classroom False [algebra] ''u2'' ''abc123''
      (body_only [''title'' \<mapsto> ''Algebra II'', ''subject'' \<mapsto> ''Math'', ''subcode'' \<mapsto> ''M102''])
     = ([algebra], Resp 400 (Msg ''User not authorized.''))
   \<and> edit_classroom False [algebra] ''u2'' ''abc123''
      (body_only [''subject'' \<mapsto> ''Math'', ''subcode'' \<mapsto> ''M102''])
     = ([algebra], Resp 400 (Errors [(Body, ''title'', ''title is required'')]))
   \<and> edit_classroom False [algebra] ''u2'' ''abc123''
      \<lparr>req_body = [''title'' \<mapsto> ''Algebra II'', ''subject'' \<mapsto> ''Math''],
       req_cookies = Map.empty, req_headers = Map.empty,
       req_query = [''subcode'' \<mapsto> ''M102'']\<rparr>
     = ([algebra], Resp 400 (Msg ''User not authorized.''))"
proof -
  let ?b = "[''title'' \<mapsto> ''Algebra II'', ''subject'' \<mapsto> ''Math'', ''subcode'' \<mapsto> ''M102'']"
  let ?b' = "[''subject'' \<mapsto> ''Math'', ''subcode'' \<mapsto> ''M102'']"
  let ?q = "\<lparr>req_body = [''title'' \<mapsto> ''Algebra II'', ''subject'' \<mapsto> ''Math''],
       req_cookies = Map.empty, req_headers = Map.empty,
       req_query = [''subcode'' \<mapsto> ''M102'']\<rparr>"
  have h: "algebra \<in> set [algebra]" "''u2'' \<in> set (joinedUsers algebra)"
    "author algebra \<noteq> ''u2''"
    by (simp_all add: algebra_def)
  have c: "code algebra = ''abc123''" by (simp add: algebra_def)
  have v: "validationResult (body_only ?b) (code algebra) = []"
    by (simp add: validationResult_def check_field_body_only notEmpty_def)
  have n: "code_count [algebra] (code algebra) = 1" by (simp add: code_count_def by_code_def)
  have v': "validationResult (body_only ?b') (code algebra) = [(Body, ''title'', ''title is required'')]"
    by (simp add: validationResult_def check_field_body_only notEmpty_def)
  from edit_classroom_non_author [OF h, of False "body_only ?b"] v n c
  have one: "edit_classroom False [algebra] ''u2'' ''abc123'' (body_only ?b)
     = ([algebra], Resp 400 (Msg ''User not authorized.''))" by simp
  from edit_classroom_non_author [OF h, of False "body_only ?b'"] v' c
  have two: "edit_classroom False [algebra] ''u2'' ''abc123'' (body_only ?b')
     = ([algebra], Resp 400 (Errors [(Body, ''title'', ''title is required'')]))" by simp
  have vq: "validationResult ?q (code algebra) = []"
    by (simp add: validationResult_def check_field_def field_instances_def req_params_def
        notEmpty_def)
  from edit_classroom_non_author [OF h, of False ?q] vq n c
  have three: "edit_classroom False [algebra] ''u2'' ''abc123'' ?q
     = ([algebra], Resp 400 (Msg ''User not authorized.''))" by simp
  from one two three show ?thesis by blast
qed

text \<open>
  The claim C5 as stated, that every edit request of a non-author member is answered with
  "not authorized", fails in two ways: for a body without a title the answer is the
  validation error; and when an earlier classroom of which the caller is the author carries
  the same code, the lookup finds that one and the answer is 200.
\<close>

theorem edit_classroom_non_author_refuted:
  "''u2'' \<in> set (joinedUsers algebra) \<and> author algebra \<noteq> ''u2''
   \<and> edit_classroom False [algebra] ''u2'' ''abc123''
        (body_only [''subject'' \<mapsto> ''Math'', ''subcode'' \<mapsto> ''M102''])
       = ([algebra], Resp 400 (Errors [(Body, ''title'', ''title is required'')]))
   \<and> edit_classroom False [twin, algebra] ''u2'' ''abc123''
        (body_only [''title'' \<mapsto> ''Algebra II'', ''subject'' \<mapsto> ''Math'', ''subcode'' \<mapsto> ''M102''])
       = ([twin\<lparr>title := Some ''Algebra II''\<rparr>, algebra],
          Resp 200 (Json (JDoc (twin\<lparr>title := Some ''Algebra II''\<rparr>))))"
proof -
  let ?b = "[''title'' \<mapsto> ''Algebra II'', ''subject'' \<mapsto> ''Math'', ''subcode'' \<mapsto> ''M102'']"
  let ?b' = "[''subject'' \<mapsto> ''Math'', ''subcode'' \<mapsto> ''M102'']"
  have m: "''u2'' \<in> set (joinedUsers algebra)" "author algebra \<noteq> ''u2''"
    by (simp_all add: algebra_def)
  have v': "validationResult (body_only ?b') ''abc123'' = [(Body, ''title'', ''title is required'')]"
    by (simp add: validationResult_def check_field_body_only notEmpty_def)
  then have one: "edit_classroom False [algebra] ''u2'' ''abc123'' (body_only ?b')
       = ([algebra], Resp 400 (Errors [(Body, ''title'', ''title is required'')]))"
    by (simp add: edit_classroom_invalid)
  have v: "validationResult (body_only ?b) ''abc123'' = []"
    by (simp add: validationResult_def check_field_body_only notEmpty_def)
  have f: "findOne (by_code_member ''abc123'' ''u2'') [twin, algebra] = Some (0, twin)"
    "findOne (by_code ''abc123'') [twin, algebra] = Some (0, twin)"
    "author twin = ''u2''"
    by (simp_all add: by_code_member_def by_code_def twin_def)
  have u: "set_paths (update_fields False [(''title'', req_body (body_only ?b) ''title''),
        (''subcode'', req_body (body_only ?b) ''subcode''),
        (''subject'', req_body (body_only ?b) ''subject'')]) twin
      = twin\<lparr>title := Some ''Algebra II''\<rparr>"
    by (simp add: body_only_def update_fields_def set_path_def twin_def)
  have two: "edit_classroom False [twin, algebra] ''u2'' ''abc123'' (body_only ?b)
       = ([twin\<lparr>title := Some ''Algebra II''\<rparr>, algebra],
          Resp 200 (Json (JDoc (twin\<lparr>title := Some ''Algebra II''\<rparr>))))"
    using v f u by (simp add: edit_classroom_def findOneAndUpdate_def)
  from m one two show ?thesis by blast
qed

section \<open>Deleting, leaving and removing members\<close>

lemma get_classroom_absent_code:
  assumes "p \<notin> code ` set db"
  shows "get_classroom db v p = Resp 400 (Msg ''Class does not exist.'')"
proof -
  from assms have "\<forall>c\<in>set db. \<not> by_code_member p v c"
    by (auto simp: by_code_member_def)
  then have "findOne (by_code_member p v) db = None" by (simp add: findOne_None_iff)
  then show ?thesis by (simp add: get_classroom_def)
qed

lemma pull_found:
  assumes "findOne (by_code p) db = Some (i, c)"
  shows "fst (findOneAndUpdate (by_code p) (pull_joinedUsers t) db)
           = db[i := c\<lparr>joinedUsers := removeAll t (joinedUsers c)\<rparr>]"
  using assms by (simp add: findOneAndUpdate_def pull_joinedUsers_def)


text \<open>
  Claim C4, as amended. For a classroom whose code no other classroom of the collection
  carries, and a caller who is a member of it: a delete request by the author removes the
  record from the collection, the other records staying, and answers "Class deleted
  successfully."; afterwards a lookup of its code answers "Class does not exist." for every
  caller. A delete request by a member who is not the author answers "Class leaved
  successfully." and replaces the record by the one whose joinedUsers no longer has the
  caller: the record stays in the collection, the caller is no member any more, every other
  user is a member after exactly when before, and the other members still get the record by
  its code. The two messages differ.
\<close>

theorem delete_classroom_deletes_or_leaves:
  assumes "c \<in> set db" and "code_count db (code c) = 1" and "caller \<in> set (joinedUsers c)"
  shows "(author c = caller \<longrightarrow>
           (\<exists>i. i < length db \<and> db ! i = c
              \<and> delete_classroom db caller (code c)
                   = (remove_doc i db, Resp 200 (Msg ''Class deleted successfully.''))
              \<and> set (remove_doc i db) = set db - {c}
              \<and> (\<forall>v. get_classroom (remove_doc i db) v (code c)
                        = Resp 400 (Msg ''Class does not exist.''))))
       \<and> (author c \<noteq> caller \<longrightarrow>
           (\<exists>i c'. i < length db \<and> db ! i = c
              \<and> c' = c\<lparr>joinedUsers := removeAll caller (joinedUsers c)\<rparr>
              \<and> delete_classroom db caller (code c)
                   = (db[i := c'], Resp 200 (Msg ''Class leaved successfully.''))
              \<and> c' \<in> set (db[i := c'])
              \<and> caller \<notin> set (joinedUsers c')
              \<and> (\<forall>v. v \<noteq> caller \<longrightarrow> (v \<in> set (joinedUsers c') \<longleftrightarrow> v \<in> set (joinedUsers c)))
              \<and> (\<forall>v. v \<noteq> caller \<and> v \<in> set (joinedUsers c) \<longrightarrow>
                       get_classroom (db[i := c']) v (code c) = Resp 200 (Json (JDoc c')))))"
proof -
  from sole_code_found [OF assms(1,2)] assms(3)
  obtain i where i: "i < length db" "db ! i = c"
    and before: "\<forall>d\<in>set (take i db). code d \<noteq> code c"
    and g: "findOne (by_code (code c)) db = Some (i, c)"
    and f: "findOne (by_code_member (code c) caller) db = Some (i, c)"
    and nc: "code c \<notin> code ` set (remove_doc i db)"
    and s: "set (remove_doc i db) = set db - {c}"
    by (elim exE conjE) blast
  show ?thesis
  proof (intro conjI impI)
    assume a: "author c = caller"
    from f a have run: "delete_classroom db caller (code c)
        = (remove_doc i db, Resp 200 (Msg ''Class deleted successfully.''))"
      by (simp add: delete_classroom_def)
    from nc have gone: "\<forall>v. get_classroom (remove_doc i db) v (code c)
        = Resp 400 (Msg ''Class does not exist.'')"
      using get_classroom_absent_code by blast
    from i run s gone show "\<exists>i. i < length db \<and> db ! i = c
              \<and> delete_classroom db caller (code c)
                   = (remove_doc i db, Resp 200 (Msg ''Class deleted successfully.''))
              \<and> set (remove_doc i db) = set db - {c}
              \<and> (\<forall>v. get_classroom (remove_doc i db) v (code c)
                        = Resp 400 (Msg ''Class does not exist.''))"
      by (intro exI [of _ i]) simp
  next
    assume a: "author c \<noteq> caller"
    define c' where "c' = c\<lparr>joinedUsers := removeAll caller (joinedUsers c)\<rparr>"
    from f a pull_found [OF g, of caller]
    have run: "delete_classroom db caller (code c)
        = (db[i := c'], Resp 200 (Msg ''Class leaved successfully.''))"
      by (simp add: delete_classroom_def c'_def)
    have mem: "c' \<in> set (db[i := c'])" using i(1) by (simp add: set_update_memI)
    have js: "joinedUsers c' = removeAll caller (joinedUsers c)" and cc: "code c' = code c"
      by (simp_all add: c'_def)
    have others: "get_classroom (db[i := c']) v (code c) = Resp 200 (Json (JDoc c'))"
      if "v \<noteq> caller \<and> v \<in> set (joinedUsers c)" for v
    proof -
      from that js have "v \<in> set (joinedUsers c')" by simp
      from update_sole_found [OF i(1) before cc this]
      show ?thesis by (simp add: get_classroom_def)
    qed
    from i run mem js others
    show "\<exists>i c'. i < length db \<and> db ! i = c
              \<and> c' = c\<lparr>joinedUsers := removeAll caller (joinedUsers c)\<rparr>
              \<and> delete_classroom db caller (code c)
                   = (db[i := c'], Resp 200 (Msg ''Class leaved successfully.''))
              \<and> c' \<in> set (db[i := c'])
              \<and> caller \<notin> set (joinedUsers c')
              \<and> (\<forall>v. v \<noteq> caller \<longrightarrow> (v \<in> set (joinedUsers c') \<longleftrightarrow> v \<in> set (joinedUsers c)))
              \<and> (\<forall>v. v \<noteq> caller \<and> v \<in> set (joinedUsers c) \<longrightarrow>
                       get_classroom (db[i := c']) v (code c) = Resp 200 (Json (JDoc c')))"
      by (intro exI [of _ i] exI [of _ c']) (simp add: c'_def)
  qed
qed

theorem delete_classroom_deletes_or_leaves_witness:
  "delete_classroom [algebra] ''u1'' ''abc123'' = ([], Resp 200 (Msg ''Class deleted successfully.''))
   \<and> get_classroom [] ''u2'' ''abc123'' = Resp 400 (Msg ''Class does not exist.'')
   \<and> delete_classroom [algebra] ''u2'' ''abc123''
       = ([algebra\<lparr>joinedUsers := [''u1'']\<rparr>], Resp 200 (Msg ''Class leaved successfully.''))"
proof -
  have h: "algebra \<in> set [algebra]" "code_count [algebra] (code algebra) = 1"
    by (simp_all add: code_count_def by_code_def)
  have m1: "''u1'' \<in> set (joinedUsers algebra)" and m2: "''u2'' \<in> set (joinedUsers algebra)"
    and a1: "author algebra = ''u1''" and a2: "author algebra \<noteq> ''u2''"
    and c: "code algebra = ''abc123''"
    by (simp_all add: algebra_def)
  from delete_classroom_deletes_or_leaves [OF h m1, THEN conjunct1, THEN mp, OF a1]
  obtain i where "i < length [algebra]"
    and "delete_classroom [algebra] ''u1'' (code algebra)
           = (remove_doc i [algebra], Resp 200 (Msg ''Class deleted successfully.''))"
    and "\<forall>v. get_classroom (remove_doc i [algebra]) v (code algebra)
           = Resp 400 (Msg ''Class does not exist.'')"
    by (elim exE conjE) blast
  then have one: "delete_classroom [algebra] ''u1'' ''abc123''
           = ([], Resp 200 (Msg ''Class deleted successfully.''))"
    and two: "get_classroom [] ''u2'' ''abc123'' = Resp 400 (Msg ''Class does not exist.'')"
    using c by (simp_all add: remove_doc_def)
  from delete_classroom_deletes_or_leaves [OF h m2, THEN conjunct2, THEN mp, OF a2]
  obtain j c' where "j < length [algebra]"
    and "c' = algebra\<lparr>joinedUsers := removeAll ''u2'' (joinedUsers algebra)\<rparr>"
    and "delete_classroom [algebra] ''u2'' (code algebra)
           = ([algebra][j := c'], Resp 200 (Msg ''Class leaved successfully.''))"
    by (elim exE conjE) blast
  then have three: "delete_classroom [algebra] ''u2'' ''abc123''
       = ([algebra\<lparr>joinedUsers := [''u1'']\<rparr>], Resp 200 (Msg ''Class leaved successfully.''))"
    using c by (simp add: algebra_def)
  from one two three show ?thesis by blast
qed

text \<open>
  The claim C4 as stated, for every classroom, fails when two classrooms carry the same
  code, which no handler prevents: the lookup filters by code and membership, the update by
  code alone. A member who leaves the second of two such classrooms is answered "Class
  leaved successfully." while the collection is unchanged and the caller still a member; and
  after the author has deleted one of them, a former member who also belongs to the other
  still gets a record for the code.
\<close>

theorem delete_classroom_same_code_refuted:
  "''u4'' \<in> set (joinedUsers twin) \<and> author twin \<noteq> ''u4''
   \<and> delete_classroom [algebra, twin] ''u4'' ''abc123''
       = ([algebra, twin], Resp 200 (Msg ''Class leaved successfully.''))
   \<and> ''u2'' \<in> set (joinedUsers twin) \<and> author twin = ''u2''
   \<and> delete_classroom [twin, algebra] ''u2'' ''abc123''
       = ([algebra], Resp 200 (Msg ''Class deleted successfully.''))
   \<and> get_classroom [algebra] ''u2'' ''abc123'' = Resp 200 (Json (JDoc algebra))"
proof -
  have m: "''u4'' \<in> set (joinedUsers twin)" "author twin \<noteq> ''u4''"
    "''u2'' \<in> set (joinedUsers twin)" "author twin = ''u2''"
    by (simp_all add: twin_def)
  have leave: "delete_classroom [algebra, twin] ''u4'' ''abc123''
       = ([algebra, twin], Resp 200 (Msg ''Class leaved successfully.''))"
    by (simp add: delete_classroom_def findOneAndUpdate_def pull_joinedUsers_def
        by_code_member_def by_code_def algebra_def twin_def)
  have del: "delete_classroom [twin, algebra] ''u2'' ''abc123''
       = ([algebra], Resp 200 (Msg ''Class deleted successfully.''))"
    by (simp add: delete_classroom_def remove_doc_def by_code_member_def twin_def)
  have found: "get_classroom [algebra] ''u2'' ''abc123'' = Resp 200 (Json (JDoc algebra))"
    by (simp add: get_classroom_def by_code_member_def algebra_def)
  from m leave del found show ?thesis by blast
qed





end
